theory Spec2Isabelle
  imports Main
begin

section \<open>JavaScript values, errors and responses\<close>

text \<open>
  The route handlers exchange JSON-like values with the request, the database driver and
  the response. \<open>JUndefined\<close> is JavaScript's \<open>undefined\<close>: the value of a missing
  property and of \<open>rows[0]\<close> on an empty array.
\<close>

datatype jsval =
    JUndefined
  | JNull
  | JBool bool
  | JNum int
  | JStr string
  | JArr "jsval list"
  | JObj "(string \<times> jsval) list"

type_synonym obj = "(string \<times> jsval) list"

text \<open>Property access \<open>o.k\<close> on an object: a missing property is \<open>undefined\<close>.\<close>

definition js_get :: "obj \<Rightarrow> string \<Rightarrow> jsval" where
  "js_get ob k = (case map_of ob k of None \<Rightarrow> JUndefined | Some v \<Rightarrow> v)"

text \<open>Array access \<open>xs[0]\<close>: \<open>undefined\<close> on the empty array.\<close>

definition index0 :: "jsval list \<Rightarrow> jsval" where
  "index0 xs = (case xs of [] \<Rightarrow> JUndefined | x # _ \<Rightarrow> x)"

text \<open>A thrown \<open>Error\<close>: its \<open>message\<close> and, for driver errors, its \<open>code\<close>.\<close>

datatype js_error = JsError (message: string) (code: "string option")

text \<open>
  What \<open>res.status(n).json(v)\<close> sends: the status and the body. Express serialises
  with \<open>JSON.stringify\<close>, which yields no text for \<open>undefined\<close>, so \<open>res.json(undefined)\<close>
  sends an empty body: \<open>body = None\<close>.
\<close>

record response =
  status :: nat
  body :: "jsval option"

record request =
  authorization :: "string option"
  params_id :: jsval
  query :: obj
  body_of :: obj
  user :: obj

section \<open>The world a handler runs in\<close>

text \<open>
  A handler acts on the connection pool and on the response. The world holds the idle
  clients of the pool (most recently released first), for every client the session-level
  value of the setting \<open>app.current_user_id\<close>, and the chronological trace of what the
  request did: clients checked out and released, statements sent on a client and their
  failures, calls of \<open>jwt.verify\<close> and the signature checks made inside it, and the
  responses sent.
\<close>

datatype event =
    Connect nat
  | Query nat string "jsval list"
  | Failed nat js_error
  | Release nat
  | Verify string
  | CheckSignature string
  | Send response

record world =
  idle :: "nat list"
  session :: "nat \<Rightarrow> jsval option"
  trace :: "event list"

type_synonym 'a io = "world \<Rightarrow> (js_error + 'a) \<times> world"

text \<open>
  Sequencing of awaited steps, \<open>throw\<close>, and the \<open>try\<close>/\<open>catch\<close>/\<open>finally\<close> blocks of
  JavaScript: \<open>finally\<close> runs on every exit path and the pending outcome of the \<open>try\<close>
  block survives it unless the \<open>finally\<close> block itself throws.
\<close>

definition ret :: "'a \<Rightarrow> 'a io" where
  "ret x = (\<lambda>w. (Inr x, w))"

definition throw :: "js_error \<Rightarrow> 'a io" where
  "throw e = (\<lambda>w. (Inl e, w))"

definition andThen :: "'a io \<Rightarrow> ('a \<Rightarrow> 'b io) \<Rightarrow> 'b io" where
  "andThen m f = (\<lambda>w. case m w of (Inl e, w') \<Rightarrow> (Inl e, w') | (Inr x, w') \<Rightarrow> f x w')"

definition try_catch :: "'a io \<Rightarrow> (js_error \<Rightarrow> 'a io) \<Rightarrow> 'a io" where
  "try_catch m h = (\<lambda>w. case m w of (Inl e, w') \<Rightarrow> h e w' | (Inr x, w') \<Rightarrow> (Inr x, w'))"

definition try_finally :: "'a io \<Rightarrow> unit io \<Rightarrow> 'a io" where
  "try_finally m fin =
     (\<lambda>w. case m w of (r, w') \<Rightarrow>
        (case fin w' of (Inl e, w'') \<Rightarrow> (Inl e, w'') | (Inr _, w'') \<Rightarrow> (r, w'')))"

definition emit :: "event \<Rightarrow> unit io" where
  "emit e = (\<lambda>w. (Inr (), w\<lparr>trace := trace w @ [e]\<rparr>))"

text \<open>\<open>res.status(st).json(v)\<close>; \<open>res.json(v)\<close> is \<open>res_json 200 v\<close>.\<close>

definition res_json :: "nat \<Rightarrow> jsval \<Rightarrow> unit io" where
  "res_json st v =
     emit (Send \<lparr>status = st, body = (if v = JUndefined then None else Some v)\<rparr>)"

section \<open>The PostgreSQL pool and its clients\<close>

text \<open>
  The database server is outside the repository. It is a parameter: given the statement
  text, its parameters and the session value of \<open>app.current_user_id\<close> that the
  row-ownership policies of the executing connection see, it answers with an error or
  with rows. Statement texts are written with every run of white space inside them as one
  blank, and without the white space around them.
\<close>

type_synonym dbms = "string \<Rightarrow> jsval list \<Rightarrow> jsval option \<Rightarrow> js_error + jsval list"

text \<open>
  \<open>pool.connect()\<close> hands out the most recently released idle client; with none
  available the promise rejects.
\<close>

definition pool_connect :: "nat io" where
  "pool_connect =
     (\<lambda>w. case idle w of
        [] \<Rightarrow> (Inl (JsError ''timeout exceeded when trying to connect'' None), w)
      | c # cs \<Rightarrow> (Inr c, w\<lparr>idle := cs, trace := trace w @ [Connect c]\<rparr>))"

text \<open>
  \<open>client.query(text, params)\<close>. The statement \<open>SET app.current_user_id = $1\<close> is
  session-scoped: once the server accepts it the value stays on the connection until it is
  set again. \<open>SELECT set_config($1, $2, true)\<close> is transaction-scoped; no handler opens
  a transaction, the statement is its own transaction, and nothing of it remains on the
  connection afterwards. No other statement of the handlers touches the setting.
  Whether the server accepts a statement is the server's answer. The README names
  PostgreSQL, whose \<open>SET\<close> takes no bind parameter: it answers
  \<open>SET app.current_user_id = $1\<close>, sent with a value, with the syntax error 42601.
\<close>

definition client_query :: "dbms \<Rightarrow> nat \<Rightarrow> string \<Rightarrow> jsval list \<Rightarrow> (jsval list) io" where
  "client_query db c text params =
     (\<lambda>w. let w1 = w\<lparr>trace := trace w @ [Query c text params]\<rparr> in
        case db text params (session w c) of
          Inl e \<Rightarrow> (Inl e, w1\<lparr>trace := trace w1 @ [Failed c e]\<rparr>)
        | Inr rows \<Rightarrow>
            (Inr rows,
             if text = ''SET app.current_user_id = $1''
             then w1\<lparr>session := (session w1)(c := Some (index0 params))\<rparr>
             else w1))"

text \<open>\<open>client.release()\<close> puts the client back among the idle ones, as it is.\<close>

definition client_release :: "nat \<Rightarrow> unit io" where
  "client_release c = (\<lambda>w. (Inr (), w\<lparr>idle := c # idle w, trace := trace w @ [Release c]\<rparr>))"

text \<open>
  \<open>pool.query(text, params)\<close>: check a client out, run the one statement on it and
  release it; after a failed statement the pool discards the client instead of keeping it.
\<close>

definition pool_query :: "dbms \<Rightarrow> string \<Rightarrow> jsval list \<Rightarrow> (jsval list) io" where
  "pool_query db text params =
     andThen pool_connect (\<lambda>client.
       try_catch
         (andThen (client_query db client text params) (\<lambda>rows.
          andThen (client_release client) (\<lambda>_. ret rows)))
         (\<lambda>err. andThen (emit (Release client)) (\<lambda>_. throw err)))"

section \<open>profiles.routes.js\<close>

definition get_profile :: "dbms \<Rightarrow> request \<Rightarrow> unit io" where
  "get_profile db req =
     andThen pool_connect (\<lambda>client.
       try_finally
         (try_catch
            (andThen (client_query db client ''SET app.current_user_id = $1''
                        [js_get (user req) ''id'']) (\<lambda>_.
             andThen (client_query db client ''SELECT * FROM profiles WHERE user_id = $1''
                        [js_get (user req) ''id'']) (\<lambda>rows.
             res_json 200 (index0 rows))))
            (\<lambda>err. res_json 500 (JObj [(''error'', JStr ''Failed to fetch profile'')])))
         (client_release client))"

definition put_profile :: "dbms \<Rightarrow> request \<Rightarrow> unit io" where
  "put_profile db req =
     (let full_name = js_get (body_of req) ''full_name'';
          avatar_url = js_get (body_of req) ''avatar_url'' in
      andThen pool_connect (\<lambda>client.
        try_finally
          (try_catch
             (andThen (client_query db client ''SET app.current_user_id = $1''
                         [js_get (user req) ''id'']) (\<lambda>_.
              andThen (client_query db client
                         ''UPDATE profiles SET full_name = $1, avatar_url = $2 WHERE user_id = $3 RETURNING *''
                         [full_name, avatar_url, js_get (user req) ''id'']) (\<lambda>rows.
              res_json 200 (index0 rows))))
             (\<lambda>err. res_json 500 (JObj [(''error'', JStr ''Failed to update profile'')])))
          (client_release client)))"

section \<open>family.routes.js\<close>

definition get_family :: "dbms \<Rightarrow> request \<Rightarrow> unit io" where
  "get_family db req =
     andThen pool_connect (\<lambda>client.
       try_finally
         (andThen (client_query db client ''SET app.current_user_id = $1''
                     [js_get (user req) ''id'']) (\<lambda>_.
          andThen (client_query db client
                     ''SELECT * FROM family_members WHERE account_owner_id = $1''
                     [js_get (user req) ''id'']) (\<lambda>rows.
          res_json 200 (JArr rows))))
         (client_release client))"

definition post_family :: "dbms \<Rightarrow> request \<Rightarrow> unit io" where
  "post_family db req =
     (let name = js_get (body_of req) ''name'';
          email = js_get (body_of req) ''email'';
          relationship = js_get (body_of req) ''relationship'';
          avatar_url = js_get (body_of req) ''avatar_url'' in
      andThen pool_connect (\<lambda>client.
        try_finally
          (try_catch
             (andThen (client_query db client ''SET app.current_user_id = $1''
                         [js_get (user req) ''id'']) (\<lambda>_.
              andThen (client_query db client
                         ''INSERT INTO family_members (account_owner_id, name, email, relationship, avatar_url) VALUES ($1, $2, $3, $4, $5) RETURNING *''
                         [js_get (user req) ''id'', name, email, relationship, avatar_url]) (\<lambda>rows.
              res_json 201 (index0 rows))))
             (\<lambda>err. res_json 400 (JObj [(''error'', JStr (message err))])))
          (client_release client)))"

definition put_family :: "dbms \<Rightarrow> request \<Rightarrow> unit io" where
  "put_family db req =
     (let id = params_id req;
          name = js_get (body_of req) ''name'';
          email = js_get (body_of req) ''email'';
          relationship = js_get (body_of req) ''relationship'';
          avatar_url = js_get (body_of req) ''avatar_url'';
          is_active = js_get (body_of req) ''is_active'' in
      andThen pool_connect (\<lambda>client.
        try_finally
          (andThen (client_query db client ''SET app.current_user_id = $1''
                      [js_get (user req) ''id'']) (\<lambda>_.
           andThen (client_query db client
                      ''UPDATE family_members SET name=$1, email=$2, relationship=$3, avatar_url=$4, is_active=$5 WHERE id=$6 RETURNING *''
                      [name, email, relationship, avatar_url, is_active, id]) (\<lambda>rows.
           res_json 200 (index0 rows))))
          (client_release client)))"

definition delete_family :: "dbms \<Rightarrow> request \<Rightarrow> unit io" where
  "delete_family db req =
     andThen pool_connect (\<lambda>client.
       try_finally
         (andThen (client_query db client ''SET app.current_user_id = $1''
                     [js_get (user req) ''id'']) (\<lambda>_.
          andThen (client_query db client ''DELETE FROM family_members WHERE id=$1''
                     [params_id req]) (\<lambda>_.
          res_json 200 (JObj [(''success'', JBool True)]))))
         (client_release client))"

section \<open>reminders.routes.js\<close>

text \<open>
  \<open>parseInt(x) || d\<close>: the default replaces \<open>NaN\<close> (here \<open>None\<close>) and \<open>0\<close>.
  \<open>parseInt\<close> itself is a parameter of the handler's model.
\<close>

definition or_default :: "int option \<Rightarrow> int \<Rightarrow> int" where
  "or_default n d = (case n of None \<Rightarrow> d | Some k \<Rightarrow> if k = 0 then d else k)"

text \<open>
  \<open>filterParams\<close> holds no or one value, so the statement text built from
  \<open>filterParams.length\<close> is one of two texts.
\<close>

definition get_reminders :: "(jsval \<Rightarrow> int option) \<Rightarrow> dbms \<Rightarrow> request \<Rightarrow> unit io" where
  "get_reminders parseInt db req =
     andThen pool_connect (\<lambda>client.
       try_finally
         (try_catch
            (andThen (client_query db client ''SELECT set_config($1, $2, true)''
                        [JStr ''app.current_user_id'', js_get (user req) ''id'']) (\<lambda>_.
             let page = or_default (parseInt (js_get (query req) ''page'')) 1;
                 limit = or_default (parseInt (js_get (query req) ''limit'')) 20;
                 offset = (page - 1) * limit;
                 filterParams =
                   (if js_get (query req) ''completed'' \<noteq> JUndefined
                    then [JBool (js_get (query req) ''completed'' = JStr ''true'')] else []);
                 text =
                   (if js_get (query req) ''completed'' \<noteq> JUndefined
                    then ''SELECT * FROM reminders WHERE completed = $1 ORDER BY due_date ASC LIMIT $2 OFFSET $3''
                    else ''SELECT * FROM reminders ORDER BY due_date ASC LIMIT $1 OFFSET $2'') in
             andThen (client_query db client text (filterParams @ [JNum limit, JNum offset])) (\<lambda>rows.
             res_json 200
               (JObj [(''page'', JNum page), (''limit'', JNum limit), (''reminders'', JArr rows)]))))
            (\<lambda>err. res_json 500 (JObj [(''error'', JStr ''Internal server error'')])))
         (client_release client))"

definition post_reminders :: "dbms \<Rightarrow> request \<Rightarrow> unit io" where
  "post_reminders db req =
     (let assigned_member_id = js_get (body_of req) ''assigned_member_id'';
          title = js_get (body_of req) ''title'';
          description = js_get (body_of req) ''description'';
          category = js_get (body_of req) ''category'';
          priority = js_get (body_of req) ''priority'';
          due_date = js_get (body_of req) ''due_date'';
          due_time = js_get (body_of req) ''due_time'';
          location = js_get (body_of req) ''location'' in
      andThen pool_connect (\<lambda>client.
        try_finally
          (andThen (client_query db client ''SET app.current_user_id = $1''
                      [js_get (user req) ''id'']) (\<lambda>_.
           andThen (client_query db client
                      ''INSERT INTO reminders (user_id, assigned_member_id, title, description, category, priority, due_date, due_time, location) VALUES ($1,$2,$3,$4,$5,$6,$7,$8,$9) RETURNING *''
                      [js_get (user req) ''id'', assigned_member_id, title, description,
                       category, priority, due_date, due_time, location]) (\<lambda>rows.
           res_json 201 (index0 rows))))
          (client_release client)))"

definition patch_reminders_complete :: "dbms \<Rightarrow> request \<Rightarrow> unit io" where
  "patch_reminders_complete db req =
     andThen pool_connect (\<lambda>client.
       try_finally
         (andThen (client_query db client ''SET app.current_user_id = $1''
                     [js_get (user req) ''id'']) (\<lambda>_.
          andThen (client_query db client
                     ''UPDATE reminders SET completed = true, completed_at = now() WHERE id = $1 RETURNING *''
                     [params_id req]) (\<lambda>rows.
          res_json 200 (index0 rows))))
         (client_release client))"

section \<open>notifications.routes.js\<close>

definition get_notifications :: "dbms \<Rightarrow> request \<Rightarrow> unit io" where
  "get_notifications db req =
     andThen pool_connect (\<lambda>client.
       try_finally
         (andThen (client_query db client ''SET app.current_user_id = $1''
                     [js_get (user req) ''id'']) (\<lambda>_.
          andThen (client_query db client
                     ''SELECT n.* FROM notifications n ORDER BY n.created_at DESC'' []) (\<lambda>rows.
          res_json 200 (JArr rows))))
         (client_release client))"

definition patch_notifications_read :: "dbms \<Rightarrow> request \<Rightarrow> unit io" where
  "patch_notifications_read db req =
     andThen pool_connect (\<lambda>client.
       try_finally
         (andThen (client_query db client ''SET app.current_user_id = $1''
                     [js_get (user req) ''id'']) (\<lambda>_.
          andThen (client_query db client
                     ''UPDATE notifications SET read = true WHERE id = $1 RETURNING *''
                     [params_id req]) (\<lambda>rows.
          res_json 200 (index0 rows))))
         (client_release client))"

section \<open>jsonwebtoken\<close>

text \<open>
  The library is outside the repository. A token is modelled symbolically: a payload
  together with the key it was signed with, and checking the signature against a secret
  is comparing the two keys. The compact serialisation of tokens to strings, its parser
  and the parser of time spans such as \<open>1d\<close> are parameters. \<open>jwt.sign\<close> adds the
  issue time \<open>iat\<close> and the expiry \<open>exp\<close> to the payload; \<open>jwt.verify\<close> rejects,
  in this order, an empty string, a string that is no token, a missing secret, a
  signature made with another key and a token at or past its expiry. Times are in seconds.
\<close>

datatype jwt = Jwt (jwt_key: string) (jwt_payload: obj)

record jsonwebtoken =
  compact :: "jwt \<Rightarrow> string"
  parse_compact :: "string \<Rightarrow> jwt option"
  timespan :: "string \<Rightarrow> nat option"

definition liftE :: "js_error + 'a \<Rightarrow> 'a io" where
  "liftE r = (case r of Inl e \<Rightarrow> throw e | Inr x \<Rightarrow> ret x)"

definition jwt_sign :: "jsonwebtoken \<Rightarrow> nat \<Rightarrow> obj \<Rightarrow> string option \<Rightarrow> string \<Rightarrow> js_error + string" where
  "jwt_sign lib now payload secretOrPrivateKey expiresIn =
     (case secretOrPrivateKey of
        None \<Rightarrow> Inl (JsError ''secretOrPrivateKey must have a value'' None)
      | Some k \<Rightarrow>
          if k = [] then Inl (JsError ''secretOrPrivateKey must have a value'' None)
          else (case timespan lib expiresIn of
                  None \<Rightarrow> Inl (JsError ''\"expiresIn\" should be a number of seconds or string representing a timespan eg: \"1d\", \"20h\", 60'' None)
                | Some ttl \<Rightarrow>
                    Inr (compact lib
                           (Jwt k (payload @ [(''iat'', JNum (int now)),
                                              (''exp'', JNum (int now + int ttl))])))))"

definition jwt_verify :: "jsonwebtoken \<Rightarrow> nat \<Rightarrow> string \<Rightarrow> string option \<Rightarrow> obj io" where
  "jwt_verify lib now token secretOrPublicKey =
     andThen (emit (Verify token)) (\<lambda>_.
       if token = [] then throw (JsError ''jwt must be provided'' None)
       else (case parse_compact lib token of
               None \<Rightarrow> throw (JsError ''jwt malformed'' None)
             | Some (Jwt k payload) \<Rightarrow>
                 (case secretOrPublicKey of
                    None \<Rightarrow> throw (JsError ''secret or public key must be provided'' None)
                  | Some s \<Rightarrow>
                      if s = [] then throw (JsError ''secret or public key must be provided'' None)
                      else andThen (emit (CheckSignature token)) (\<lambda>_.
                        if k \<noteq> s then throw (JsError ''invalid signature'' None)
                        else (case js_get payload ''exp'' of
                                JUndefined \<Rightarrow> ret payload
                              | JNum exp \<Rightarrow>
                                  if exp \<le> int now then throw (JsError ''jwt expired'' None)
                                  else ret payload
                              | _ \<Rightarrow> throw (JsError ''invalid exp value'' None))))))"

section \<open>auth.js\<close>

text \<open>\<open>process.env\<close>, as far as the code reads it.\<close>

record env =
  JWT_SECRET :: "string option"
  JWT_EXPIRES_IN :: "string option"

text \<open>
  \<open>s.split(sep)\<close> for a one-character separator: the pieces between the separators,
  empty pieces included, so the empty string splits into one empty piece.
\<close>

fun js_split :: "char \<Rightarrow> string \<Rightarrow> string list" where
  "js_split sep [] = [[]]"
| "js_split sep (x # xs) =
     (if x = sep then [] # js_split sep xs
      else (case js_split sep xs of [] \<Rightarrow> [[x]] | p # ps \<Rightarrow> (x # p) # ps))"

text \<open>
  The middleware either answers the request itself (result \<open>None\<close>) or calls \<open>next()\<close>
  with the verified payload attached as \<open>req.user\<close> (result \<open>Some\<close> of that request).
  \<open>!authHeader\<close> holds for an absent header and for an empty one.
\<close>

definition authMiddleware :: "jsonwebtoken \<Rightarrow> env \<Rightarrow> nat \<Rightarrow> request \<Rightarrow> (request option) io" where
  "authMiddleware lib env now req =
     (case authorization req of
        None \<Rightarrow>
          andThen (res_json 401 (JObj [(''error'', JStr ''Missing Authorization header'')]))
            (\<lambda>_. ret None)
      | Some authHeader \<Rightarrow>
          if authHeader = []
          then andThen (res_json 401 (JObj [(''error'', JStr ''Missing Authorization header'')]))
                 (\<lambda>_. ret None)
          else
            let parts = js_split CHR '' '' authHeader in
            if length parts \<noteq> 2 \<or> parts ! 0 \<noteq> ''Bearer''
            then andThen (res_json 401 (JObj [(''error'', JStr ''Invalid Authorization header format'')]))
                   (\<lambda>_. ret None)
            else
              let token = parts ! 1 in
              try_catch
                (andThen (jwt_verify lib now token (JWT_SECRET env)) (\<lambda>payload.
                 ret (Some (req\<lparr>user := payload\<rparr>))))
                (\<lambda>err. andThen (res_json 401
                                   (JObj [(''error'', JStr (''Invalid token: '' @ message err))]))
                         (\<lambda>_. ret None)))"

text \<open>A route registered as \<open>router.get(path, authMiddleware, h)\<close>.\<close>

definition guarded :: "jsonwebtoken \<Rightarrow> env \<Rightarrow> nat \<Rightarrow> (request \<Rightarrow> unit io) \<Rightarrow> request \<Rightarrow> unit io" where
  "guarded lib env now h req =
     andThen (authMiddleware lib env now req)
       (\<lambda>r. case r of None \<Rightarrow> ret () | Some req' \<Rightarrow> h req')"

section \<open>users.routes.js\<close>

text \<open>Property access \<open>v.k\<close> on a row.\<close>

definition js_prop :: "jsval \<Rightarrow> string \<Rightarrow> jsval" where
  "js_prop v k = (case v of JObj ob \<Rightarrow> js_get ob k | _ \<Rightarrow> JUndefined)"

text \<open>\<open>process.env.JWT_EXPIRES_IN || "1d"\<close>\<close>

definition expiresIn :: "env \<Rightarrow> string" where
  "expiresIn env =
     (case JWT_EXPIRES_IN env of None \<Rightarrow> ''1d'' | Some s \<Rightarrow> if s = [] then ''1d'' else s)"

text \<open>
  \<open>POST /login\<close>. \<open>bcrypt.compare\<close> is a parameter: it answers whether the
  password matches the stored hash, or rejects.
\<close>

definition login ::
  "jsonwebtoken \<Rightarrow> (jsval \<Rightarrow> jsval \<Rightarrow> js_error + bool) \<Rightarrow> env \<Rightarrow> nat \<Rightarrow> dbms \<Rightarrow> request \<Rightarrow> unit io" where
  "login lib bcrypt_compare env now db req =
     try_catch
       (let email = js_get (body_of req) ''email'';
            password = js_get (body_of req) ''password'' in
        andThen (pool_query db
                   ''SELECT u.id, u.email, u.full_name, u.password_hash, p.plan_type FROM users u JOIN profiles p ON u.id = p.user_id WHERE u.email = $1''
                   [email]) (\<lambda>rows.
        if rows = [] then res_json 400 (JObj [(''error'', JStr ''Invalid email or password'')])
        else
          let user = index0 rows in
          andThen (liftE (bcrypt_compare password (js_prop user ''password_hash''))) (\<lambda>isMatch.
          if \<not> isMatch then res_json 400 (JObj [(''error'', JStr ''Invalid email or password'')])
          else
            andThen (liftE (jwt_sign lib now
                              [(''id'', js_prop user ''id''), (''email'', js_prop user ''email'')]
                              (JWT_SECRET env) (expiresIn env))) (\<lambda>token.
            res_json 200
              (JObj [(''token'', JStr token),
                     (''user'', JObj [(''id'', js_prop user ''id''),
                                      (''email'', js_prop user ''email''),
                                      (''full_name'', js_prop user ''full_name''),
                                      (''plan_type'', js_prop user ''plan_type'')])])))))
       (\<lambda>err. res_json 500 (JObj [(''error'', JStr ''Internal server error'')]))"

text \<open>\<open>GET /users\<close>, registered behind \<open>authMiddleware\<close>.\<close>

definition get_users :: "dbms \<Rightarrow> request \<Rightarrow> unit io" where
  "get_users db req =
     try_catch
       (andThen (pool_query db ''SELECT * FROM public.users ORDER BY created_at DESC'' [])
          (\<lambda>rows. res_json 200 (JArr rows)))
       (\<lambda>err. res_json 500 (JObj [(''error'', JStr ''Internal server error'')]))"

section \<open>The tenant-scoped routes\<close>

text \<open>
  The routes whose handler checks a client out of the pool and binds \<open>req.user.id\<close>
  to it before its query, as the routers register them.
\<close>

datatype route =
    GET_profile
  | PUT_profile
  | GET_family
  | POST_family
  | PUT_family_id
  | DELETE_family_id
  | GET_reminders
  | POST_reminders
  | PATCH_reminders_id_complete
  | GET_notifications
  | PATCH_notifications_id_read

fun handler :: "(jsval \<Rightarrow> int option) \<Rightarrow> route \<Rightarrow> dbms \<Rightarrow> request \<Rightarrow> unit io" where
  "handler parseInt GET_profile = get_profile"
| "handler parseInt PUT_profile = put_profile"
| "handler parseInt GET_family = get_family"
| "handler parseInt POST_family = post_family"
| "handler parseInt PUT_family_id = put_family"
| "handler parseInt DELETE_family_id = delete_family"
| "handler parseInt GET_reminders = get_reminders parseInt"
| "handler parseInt POST_reminders = post_reminders"
| "handler parseInt PATCH_reminders_id_complete = patch_reminders_complete"
| "handler parseInt GET_notifications = get_notifications"
| "handler parseInt PATCH_notifications_id_read = patch_notifications_read"

text \<open>The events a run added to the trace, and the parts of them the properties speak of.\<close>

definition new_events :: "world \<Rightarrow> world \<Rightarrow> event list" where
  "new_events w w' = drop (length (trace w)) (trace w')"

fun is_release :: "event \<Rightarrow> bool" where
  "is_release (Release c) = True"
| "is_release _ = False"

fun is_query :: "event \<Rightarrow> bool" where
  "is_query (Query c t ps) = True"
| "is_query _ = False"

fun is_failed :: "event \<Rightarrow> bool" where
  "is_failed (Failed c e) = True"
| "is_failed _ = False"

fun is_verify :: "event \<Rightarrow> bool" where
  "is_verify (Verify t) = True"
| "is_verify _ = False"

fun is_check :: "event \<Rightarrow> bool" where
  "is_check (CheckSignature t) = True"
| "is_check _ = False"

fun sent :: "event list \<Rightarrow> response list" where
  "sent [] = []"
| "sent (Send r # es) = r # sent es"
| "sent (e # es) = sent es"

text \<open>The session-binding statement each route issues, for the principal \<open>req.user\<close>.\<close>

fun bind_stmt :: "route \<Rightarrow> request \<Rightarrow> string \<times> jsval list" where
  "bind_stmt GET_reminders req =
     (''SELECT set_config($1, $2, true)'', [JStr ''app.current_user_id'', js_get (user req) ''id''])"
| "bind_stmt r req = (''SET app.current_user_id = $1'', [js_get (user req) ''id''])"

section \<open>Example inputs\<close>

text \<open>
  A pool with one idle client that carries no setting, requests, database servers (one
  answers as PostgreSQL does, refusing the \<open>SET\<close> statement with its bind parameter and
  finding no rows for the other statements, one refuses every statement, one accepts the
  \<open>SET\<close> statement and refuses the rest, one returns a user row), and an instance of the
  token library and of \<open>bcrypt.compare\<close>.
\<close>

definition pool1 :: world where
  "pool1 = \<lparr>idle = [0], session = (\<lambda>_. None), trace = []\<rparr>"

definition alice :: request where
  "alice = \<lparr>authorization = None, params_id = JStr ''7'', query = [], body_of = [],
            user = [(''id'', JStr ''alice''), (''email'', JStr ''a@x.com'')]\<rparr>"

definition db_postgres :: dbms where
  "db_postgres =
     (\<lambda>t ps s. if t = ''SET app.current_user_id = $1''
                then Inl (JsError ''syntax error at or near \"$1\"'' (Some ''42601''))
                else Inr [])"

definition db_down :: dbms where
  "db_down = (\<lambda>t ps s. Inl (JsError ''Connection terminated unexpectedly'' None))"

definition db_unique :: dbms where
  "db_unique =
     (\<lambda>t ps s. if t = ''SET app.current_user_id = $1'' then Inr []
                else Inl (JsError ''duplicate key value violates unique constraint family_members_email_key''
                            (Some ''23505'')))"

definition token0 :: jwt where
  "token0 = Jwt ''k'' [(''id'', JStr ''u1''), (''email'', JStr ''a@x.com''),
                       (''iat'', JNum 100), (''exp'', JNum 86500)]"

definition lib0 :: jsonwebtoken where
  "lib0 = \<lparr>compact = (\<lambda>j. if j = token0 then ''h.p.s'' else ''h.q.r''),
           parse_compact =
             (\<lambda>s. if s = ''h.p.s'' then Some token0
                  else if s = ''h.x.y'' then Some (Jwt ''another key'' (jwt_payload token0))
                  else None),
           timespan = (\<lambda>s. if s = ''1d'' then Some 86400 else None)\<rparr>"

definition env0 :: env where
  "env0 = \<lparr>JWT_SECRET = Some ''k'', JWT_EXPIRES_IN = None\<rparr>"

definition bearer :: "string \<Rightarrow> request" where
  "bearer h = \<lparr>authorization = Some h, params_id = JUndefined, query = [], body_of = [],
               user = []\<rparr>"

definition credentials :: request where
  "credentials = \<lparr>authorization = None, params_id = JUndefined, query = [],
                   body_of = [(''email'', JStr ''a@x.com''), (''password'', JStr ''secret'')],
                   user = []\<rparr>"

definition db_users :: dbms where
  "db_users =
     (\<lambda>t ps s. Inr [JObj [(''id'', JStr ''u1''), (''email'', JStr ''a@x.com''),
                          (''full_name'', JStr ''A''), (''password_hash'', JStr ''$2b$10$hash''),
                          (''plan_type'', JStr ''free'')]])"

definition bcrypt0 :: "jsval \<Rightarrow> jsval \<Rightarrow> js_error + bool" where
  "bcrypt0 data hash = Inr (data = JStr ''secret'' \<and> hash = JStr ''$2b$10$hash'')"

section \<open>Facts about the primitives\<close>

lemmas io_defs = ret_def throw_def andThen_def try_catch_def try_finally_def emit_def res_json_def
  pool_connect_def client_query_def client_release_def new_events_def Let_def

lemmas handler_defs = get_profile_def put_profile_def get_family_def post_family_def
  put_family_def delete_family_def get_reminders_def post_reminders_def
  patch_reminders_complete_def get_notifications_def patch_notifications_read_def

lemmas example_defs = pool1_def alice_def db_postgres_def db_down_def
  db_unique_def token0_def lib0_def env0_def bearer_def credentials_def db_users_def bcrypt0_def

lemma js_split_nonempty: "js_split sep s \<noteq> []"
  by (induction s) (auto split: list.splits)

lemma js_split_no_sep: "sep \<notin> set t \<Longrightarrow> js_split sep t = [t]"
  by (induction t) (auto split: list.splits)

lemma js_split_bearer:
  "CHR '' '' \<notin> set t \<Longrightarrow> js_split CHR '' '' (''Bearer '' @ t) = [''Bearer'', t]"
  by (simp add: js_split_no_sep)

lemma list2I: "length xs = 2 \<Longrightarrow> xs ! 0 = a \<Longrightarrow> xs ! Suc 0 = b \<Longrightarrow> xs = [a, b]"
  by (cases xs; cases "tl xs") auto

lemma jwt_verify_ok:
  assumes "parse_compact lib tok = Some (Jwt k payload)" and "tok \<noteq> []" and "k \<noteq> []"
    and "js_get payload ''exp'' = JNum ex" and "int now < ex"
  shows "jwt_verify lib now tok (Some k) w =
           (Inr payload, w\<lparr>trace := trace w @ [Verify tok, CheckSignature tok]\<rparr>)"
  using assms by (simp add: jwt_verify_def io_defs)

lemma authMiddleware_bearer:
  assumes "authorization req = Some (''Bearer '' @ tok)" and "CHR '' '' \<notin> set tok"
  shows "authMiddleware lib env now req =
          try_catch
            (andThen (jwt_verify lib now tok (JWT_SECRET env)) (\<lambda>payload.
             ret (Some (req\<lparr>user := payload\<rparr>))))
            (\<lambda>err. andThen (res_json 401
                               (JObj [(''error'', JStr (''Invalid token: '' @ message err))]))
                     (\<lambda>_. ret None))"
  using assms js_split_bearer[of tok] by (simp add: authMiddleware_def)

section \<open>Release of the connection\<close>

text \<open>
  C5. Every tenant-scoped handler, once it has checked a client out, releases that client
  exactly once on every path, also when the binding statement or the query fails: the run
  adds exactly one release to the trace, the release is its last event, and the pool holds
  the idle clients it held before. When the handler rejects, the error it passes on is
  that of a failed statement, and by then the client is back in the pool.
\<close>
theorem release_exactly_once:
  assumes "idle w = c # cs"
  shows "case handler parseInt r db req w of (res, w') \<Rightarrow>
           filter is_release (new_events w w') = [Release c] \<and>
           last (new_events w w') = Release c \<and>
           idle w' = idle w \<and>
           (\<forall>e. res = Inl e \<longrightarrow> Failed c e \<in> set (new_events w w'))"
  using assms
  by (cases r) (simp_all add: io_defs handler_defs split: sum.splits prod.splits)

theorem release_exactly_once_witness:
  "idle pool1 = [0] \<and>
   (case handler (\<lambda>_. None) POST_reminders db_down alice pool1 of (res, w') \<Rightarrow>
      res = Inl (JsError ''Connection terminated unexpectedly'' None) \<and>
      filter is_release (new_events pool1 w') = [Release 0] \<and>
      last (new_events pool1 w') = Release 0 \<and>
      idle w' = idle pool1 \<and>
      (\<forall>e. res = Inl e \<longrightarrow> Failed 0 e \<in> set (new_events pool1 w')))"
proof -
  have h: "idle pool1 = [0]" by (simp add: pool1_def)
  have r: "fst (handler (\<lambda>_. None) POST_reminders db_down alice pool1) =
             Inl (JsError ''Connection terminated unexpectedly'' None)"
    by (simp add: post_reminders_def io_defs example_defs)
  show ?thesis
    using h r release_exactly_once [where w = pool1 and c = 0 and cs = "[]" and r = POST_reminders
        and parseInt = "\<lambda>_. None" and db = db_down and req = alice]
    by (simp add: case_prod_unfold)
qed

section \<open>Failure of the binding statement\<close>

text \<open>
  C6. In every tenant-scoped handler, when the database answers the session-binding
  statement with an error, that statement is the only one the request executes on the
  connection: no work query follows. The request fails: the handler either rejects with
  that error and sends nothing, or sends one response with an error status.
\<close>
theorem bind_failure_fatal:
  assumes "idle w = c # cs" and "bind_stmt r req = (t, ps)" and "db t ps (session w c) = Inl e"
  shows "case handler parseInt r db req w of (res, w') \<Rightarrow>
           filter is_query (new_events w w') = [Query c t ps] \<and>
           (res = Inl e \<and> sent (new_events w w') = [] \<or>
            res = Inr () \<and> (\<exists>rsp. sent (new_events w w') = [rsp] \<and> 400 \<le> status rsp))"
  using assms
  by (cases r) (auto simp add: io_defs handler_defs split: sum.splits prod.splits)

theorem bind_failure_fatal_witness:
  "idle pool1 = [0] \<and>
   bind_stmt GET_family alice = (''SET app.current_user_id = $1'', [JStr ''alice'']) \<and>
   db_down ''SET app.current_user_id = $1'' [JStr ''alice''] (session pool1 0) =
     Inl (JsError ''Connection terminated unexpectedly'' None) \<and>
   (case handler (\<lambda>_. None) GET_family db_down alice pool1 of (res, w') \<Rightarrow>
      filter is_query (new_events pool1 w') =
        [Query 0 ''SET app.current_user_id = $1'' [JStr ''alice'']] \<and>
      (res = Inl (JsError ''Connection terminated unexpectedly'' None) \<and>
         sent (new_events pool1 w') = [] \<or>
       res = Inr () \<and> (\<exists>rsp. sent (new_events pool1 w') = [rsp] \<and> 400 \<le> status rsp)))"
proof -
  have h1: "idle pool1 = [0]" by (simp add: pool1_def)
  have h2: "bind_stmt GET_family alice = (''SET app.current_user_id = $1'', [JStr ''alice''])"
    by (simp add: alice_def js_get_def)
  have h3: "db_down ''SET app.current_user_id = $1'' [JStr ''alice''] (session pool1 0) =
     Inl (JsError ''Connection terminated unexpectedly'' None)"
    by (simp add: db_down_def)
  show ?thesis
    using h1 h2 h3
      bind_failure_fatal [where w = pool1 and c = 0 and cs = "[]" and r = GET_family
        and req = alice and t = "''SET app.current_user_id = $1''" and ps = "[JStr ''alice'']"
        and db = db_down and e = "JsError ''Connection terminated unexpectedly'' None"
        and parseInt = "\<lambda>_. None"]
    by simp
qed

section \<open>Updates that match no row\<close>

text \<open>
  C10. The property says that \<open>PATCH /reminders/:id/complete\<close> and
  \<open>PATCH /notifications/:id/read\<close> answer with status 200 and an empty body when no row
  matches the id. Against a server that answers as PostgreSQL does, with no row matching,
  both handlers reject with the syntax error of the binding statement: that statement is
  the only one sent, the update is never sent, and no response is sent.
\<close>
theorem patch_rejects_at_bind:
  "(case patch_reminders_complete db_postgres alice pool1 of (res, w') \<Rightarrow>
      res = Inl (JsError ''syntax error at or near \"$1\"'' (Some ''42601'')) \<and>
      sent (new_events pool1 w') = [] \<and>
      filter is_query (new_events pool1 w') =
        [Query 0 ''SET app.current_user_id = $1'' [JStr ''alice'']]) \<and>
   (case patch_notifications_read db_postgres alice pool1 of (res, w') \<Rightarrow>
      res = Inl (JsError ''syntax error at or near \"$1\"'' (Some ''42601'')) \<and>
      sent (new_events pool1 w') = [] \<and>
      filter is_query (new_events pool1 w') =
        [Query 0 ''SET app.current_user_id = $1'' [JStr ''alice'']])"
  by (simp add: patch_reminders_complete_def patch_notifications_read_def io_defs example_defs
        js_get_def)

text \<open>
  What the handlers do after a binding statement that the server accepts: they send the
  update and answer with status 200 and the serialisation of \<open>rows[0]\<close>, which is the
  empty body when the update returned no row. Neither handler tests \<open>rows.length\<close>.
\<close>

lemma patch_sends_first_row:
  assumes "idle w = c # cs"
    and "db ''SET app.current_user_id = $1'' [js_get (user req) ''id''] (session w c) = Inr x"
    and "h = patch_reminders_complete \<and>
           t = ''UPDATE reminders SET completed = true, completed_at = now() WHERE id = $1 RETURNING *'' \<or>
         h = patch_notifications_read \<and>
           t = ''UPDATE notifications SET read = true WHERE id = $1 RETURNING *''"
    and "db t [params_id req] (Some (js_get (user req) ''id'')) = Inr rows"
  shows "case h db req w of (res, w') \<Rightarrow>
           res = Inr () \<and>
           new_events w w' =
             [Connect c,
              Query c ''SET app.current_user_id = $1'' [js_get (user req) ''id''],
              Query c t [params_id req],
              Send \<lparr>status = 200,
                    body = (case rows of [] \<Rightarrow> None
                            | r # _ \<Rightarrow> if r = JUndefined then None else Some r)\<rparr>,
              Release c]"
  using assms
  by (auto simp add: io_defs handler_defs index0_def split: sum.splits prod.splits list.splits)

section \<open>What stays on a released connection\<close>



text \<open>
  The refusal of the \<open>SET\<close> statement carries this: a server that accepted it would
  leave the principal on the released client, since no handler resets the setting.
\<close>

lemma binding_survives_release:
  assumes "idle w = c # cs" and "r \<noteq> GET_reminders"
    and "db ''SET app.current_user_id = $1'' [js_get (user req) ''id''] (session w c) = Inr x"
  shows "case handler parseInt r db req w of (res, w') \<Rightarrow>
           idle w' = c # cs \<and> session w' c = Some (js_get (user req) ''id'')"
  using assms
  by (cases r) (simp_all add: io_defs handler_defs index0_def split: sum.splits prod.splits)

section \<open>Malformed authorization headers\<close>

text \<open>
  C4. A request without an authorization header, or with an empty one, is rejected with
  status 401 as a missing credential, and \<open>jwt.verify\<close> is not called. A header that is present and malformed
  (its split at blanks has fewer than two parts, a first part other than \<open>Bearer\<close>,
  compared case-sensitively, more than two parts, or an empty second part) is rejected
  with status 401 and a body other than that of the missing credential, and no signature
  is checked. Unless the header is \<open>Bearer\<close> followed by one blank and an empty token,
  \<open>jwt.verify\<close> is not even called; the empty token is handed to \<open>jwt.verify\<close>,
  which refuses it before it looks at any signature.
\<close>
theorem malformed_header_rejected:
  assumes "parts = js_split CHR '' '' h"
  shows "case authMiddleware lib env now req w of (res, w') \<Rightarrow>
           (authorization req = None \<or> authorization req = Some [] \<longrightarrow>
              res = Inr None \<and>
              sent (new_events w w') =
                [\<lparr>status = 401, body = Some (JObj [(''error'', JStr ''Missing Authorization header'')])\<rparr>] \<and>
              filter is_verify (new_events w w') = []) \<and>
           (authorization req = Some h \<and> h \<noteq> [] \<and>
            (length parts < 2 \<or> parts ! 0 \<noteq> ''Bearer'' \<or> 2 < length parts \<or> parts ! 1 = []) \<longrightarrow>
              res = Inr None \<and>
              (\<exists>b. sent (new_events w w') = [\<lparr>status = 401, body = Some b\<rparr>] \<and>
                   b \<noteq> JObj [(''error'', JStr ''Missing Authorization header'')]) \<and>
              filter is_check (new_events w w') = [] \<and>
              (parts \<noteq> [''Bearer'', []] \<longrightarrow> filter is_verify (new_events w w') = []))"
  using assms
  by (auto simp add: authMiddleware_def jwt_verify_def io_defs
           split: sum.splits prod.splits list.splits option.splits jwt.splits
           intro: list2I)

theorem malformed_header_rejected_witness:
  "(case authMiddleware lib0 env0 200 alice pool1 of (res, w') \<Rightarrow>
      authorization alice = None \<and> res = Inr None \<and>
      sent (new_events pool1 w') =
        [\<lparr>status = 401, body = Some (JObj [(''error'', JStr ''Missing Authorization header'')])\<rparr>] \<and>
      filter is_verify (new_events pool1 w') = []) \<and>
   (case authMiddleware lib0 env0 200 (bearer ''bearer h.p.s'') pool1 of (res, w') \<Rightarrow>
      js_split CHR '' '' ''bearer h.p.s'' ! 0 \<noteq> ''Bearer'' \<and> res = Inr None \<and>
      sent (new_events pool1 w') =
        [\<lparr>status = 401, body = Some (JObj [(''error'', JStr ''Invalid Authorization header format'')])\<rparr>] \<and>
      filter is_verify (new_events pool1 w') = []) \<and>
   (case authMiddleware lib0 env0 200 (bearer ''Bearer '') pool1 of (res, w') \<Rightarrow>
      js_split CHR '' '' ''Bearer '' ! 1 = [] \<and> res = Inr None \<and>
      sent (new_events pool1 w') =
        [\<lparr>status = 401, body = Some (JObj [(''error'', JStr ''Invalid token: jwt must be provided'')])\<rparr>] \<and>
      filter is_check (new_events pool1 w') = [])"
  using
    malformed_header_rejected [where h = "''''" and parts = "[[]]" and req = alice
      and lib = lib0 and env = env0 and now = 200 and w = pool1]
    malformed_header_rejected [where h = "''bearer h.p.s''" and parts = "[''bearer'', ''h.p.s'']"
      and req = "bearer ''bearer h.p.s''" and lib = lib0 and env = env0 and now = 200 and w = pool1]
    malformed_header_rejected [where h = "''Bearer ''" and parts = "[''Bearer'', []]"
      and req = "bearer ''Bearer ''" and lib = lib0 and env = env0 and now = 200 and w = pool1]
  by (simp add: authMiddleware_def jwt_verify_def io_defs example_defs)

section \<open>Tokens that fail verification\<close>

text \<open>
  C3. The property asks that two tokens failing verification for different reasons get
  identical responses. They do not: an expired token and a string that is no token are
  both answered with status 401, but the bodies name the reason.
\<close>
theorem invalid_token_reason_visible:
  "fst (jwt_verify lib0 90000 ''h.p.s'' (JWT_SECRET env0) pool1) = Inl (JsError ''jwt expired'' None) \<and>
   fst (jwt_verify lib0 90000 ''garbage'' (JWT_SECRET env0) pool1) = Inl (JsError ''jwt malformed'' None) \<and>
   sent (trace (snd (authMiddleware lib0 env0 90000 (bearer ''Bearer h.p.s'') pool1))) =
     [\<lparr>status = 401, body = Some (JObj [(''error'', JStr ''Invalid token: jwt expired'')])\<rparr>] \<and>
   sent (trace (snd (authMiddleware lib0 env0 90000 (bearer ''Bearer garbage'') pool1))) =
     [\<lparr>status = 401, body = Some (JObj [(''error'', JStr ''Invalid token: jwt malformed'')])\<rparr>] \<and>
   sent (trace (snd (authMiddleware lib0 env0 90000 (bearer ''Bearer h.p.s'') pool1))) \<noteq>
   sent (trace (snd (authMiddleware lib0 env0 90000 (bearer ''Bearer garbage'') pool1)))"
  by (simp add: authMiddleware_def jwt_verify_def io_defs example_defs js_get_def)

text \<open>
  C3, as the code has it: every token that fails verification is answered, without
  calling \<open>next()\<close>, with status 401 and the body
  \<open>{error: "Invalid token: " + err.message}\<close>, where \<open>err\<close> is the error of
  \<open>jwt.verify\<close>. So the responses to two failing tokens have the same status and shape,
  and are identical when \<open>jwt.verify\<close> reports the same message.
\<close>

theorem invalid_token_response:
  assumes "authorization req = Some h" and "js_split CHR '' '' h = [''Bearer'', t]"
    and "fst (jwt_verify lib now t (JWT_SECRET env) w) = Inl err"
  shows "case authMiddleware lib env now req w of (res, w') \<Rightarrow>
           res = Inr None \<and>
           sent (new_events w w') =
             [\<lparr>status = 401,
               body = Some (JObj [(''error'', JStr (''Invalid token: '' @ message err))])\<rparr>]"
  using assms
  by (auto simp add: authMiddleware_def jwt_verify_def io_defs
           split: sum.splits prod.splits list.splits option.splits jwt.splits if_splits jsval.splits)

theorem invalid_token_response_witness:
  "authorization (bearer ''Bearer h.x.y'') = Some ''Bearer h.x.y'' \<and>
   js_split CHR '' '' ''Bearer h.x.y'' = [''Bearer'', ''h.x.y''] \<and>
   fst (jwt_verify lib0 200 ''h.x.y'' (JWT_SECRET env0) pool1) = Inl (JsError ''invalid signature'' None) \<and>
   (case authMiddleware lib0 env0 200 (bearer ''Bearer h.x.y'') pool1 of (res, w') \<Rightarrow>
      res = Inr None \<and>
      sent (new_events pool1 w') =
        [\<lparr>status = 401,
          body = Some (JObj [(''error'', JStr (''Invalid token: '' @ message (JsError ''invalid signature'' None)))])\<rparr>])"
proof -
  have h1: "authorization (bearer ''Bearer h.x.y'') = Some ''Bearer h.x.y''"
    by (simp add: bearer_def)
  have h2: "js_split CHR '' '' ''Bearer h.x.y'' = [''Bearer'', ''h.x.y'']"
    by simp
  have h3: "fst (jwt_verify lib0 200 ''h.x.y'' (JWT_SECRET env0) pool1) =
              Inl (JsError ''invalid signature'' None)"
    by (simp add: jwt_verify_def io_defs example_defs)
  show ?thesis
    using h1 h2 h3
      invalid_token_response [where req = "bearer ''Bearer h.x.y''" and h = "''Bearer h.x.y''"
        and t = "''h.x.y''" and lib = lib0 and now = 200 and env = env0 and w = pool1
        and err = "JsError ''invalid signature'' None"]
    by simp
qed

section \<open>Login\<close>

text \<open>
  C7. When the query of \<open>POST /login\<close> finds the user and \<open>bcrypt.compare\<close> answers
  for the supplied password and the stored hash: on a match, with a token signed by
  \<open>jwt.sign\<close>, the response has status 200 and carries that token and a user object
  with exactly the properties \<open>id\<close>, \<open>email\<close>, \<open>full_name\<close> and \<open>plan_type\<close>
  of the row, so no password and no password hash; on a mismatch the response has status
  400, the body \<open>{error: "Invalid email or password"}\<close>, and no token.
\<close>
theorem login_response:
  assumes "idle w = c # cs"
    and "db ''SELECT u.id, u.email, u.full_name, u.password_hash, p.plan_type FROM users u JOIN profiles p ON u.id = p.user_id WHERE u.email = $1''
            [js_get (body_of req) ''email''] (session w c) = Inr (u # us)"
    and "bcrypt_compare (js_get (body_of req) ''password'') (js_prop u ''password_hash'') = Inr isMatch"
  shows "case login lib bcrypt_compare env now db req w of (res, w') \<Rightarrow>
           (isMatch \<and>
            jwt_sign lib now [(''id'', js_prop u ''id''), (''email'', js_prop u ''email'')]
              (JWT_SECRET env) (expiresIn env) = Inr token \<longrightarrow>
              res = Inr () \<and>
              (\<exists>userObj.
                 sent (new_events w w') =
                   [\<lparr>status = 200,
                     body = Some (JObj [(''token'', JStr token), (''user'', JObj userObj)])\<rparr>] \<and>
                 map fst userObj = [''id'', ''email'', ''full_name'', ''plan_type''] \<and>
                 map snd userObj = map (js_prop u) [''id'', ''email'', ''full_name'', ''plan_type''] \<and>
                 ''password'' \<notin> fst ` set userObj \<and> ''password_hash'' \<notin> fst ` set userObj)) \<and>
           (\<not> isMatch \<longrightarrow>
              res = Inr () \<and>
              sent (new_events w w') =
                [\<lparr>status = 400,
                  body = Some (JObj [(''error'', JStr ''Invalid email or password'')])\<rparr>])"
  using assms
  by (simp add: login_def pool_query_def liftE_def index0_def io_defs split: sum.splits prod.splits)

theorem login_response_witness:
  "idle pool1 = [0] \<and>
   bcrypt0 (js_get (body_of credentials) ''password'') (JStr ''$2b$10$hash'') = Inr True \<and>
   bcrypt0 (js_get (body_of (credentials\<lparr>body_of := [(''email'', JStr ''a@x.com''), (''password'', JStr ''wrong'')]\<rparr>)) ''password'')
     (JStr ''$2b$10$hash'') = Inr False \<and>
   jwt_sign lib0 100 [(''id'', JStr ''u1''), (''email'', JStr ''a@x.com'')] (JWT_SECRET env0) (expiresIn env0) = Inr ''h.p.s'' \<and>
   (case login lib0 bcrypt0 env0 100 db_users credentials pool1 of (res, w') \<Rightarrow>
      res = Inr () \<and>
      sent (new_events pool1 w') =
        [\<lparr>status = 200,
          body = Some (JObj [(''token'', JStr ''h.p.s''),
                             (''user'', JObj [(''id'', JStr ''u1''), (''email'', JStr ''a@x.com''),
                                              (''full_name'', JStr ''A''), (''plan_type'', JStr ''free'')])])\<rparr>]) \<and>
   (case login lib0 bcrypt0 env0 100 db_users
           (credentials\<lparr>body_of := [(''email'', JStr ''a@x.com''), (''password'', JStr ''wrong'')]\<rparr>) pool1 of
      (res, w') \<Rightarrow>
      res = Inr () \<and>
      sent (new_events pool1 w') =
        [\<lparr>status = 400, body = Some (JObj [(''error'', JStr ''Invalid email or password'')])\<rparr>])"
  using
    login_response [where w = pool1 and c = 0 and cs = "[]" and db = db_users and req = credentials
      and u = "JObj [(''id'', JStr ''u1''), (''email'', JStr ''a@x.com''),
                     (''full_name'', JStr ''A''), (''password_hash'', JStr ''$2b$10$hash''),
                     (''plan_type'', JStr ''free'')]"
      and us = "[]" and bcrypt_compare = bcrypt0 and isMatch = True and lib = lib0 and env = env0
      and now = 100 and token = "''h.p.s''"]
    login_response [where w = pool1 and c = 0 and cs = "[]" and db = db_users
      and req = "credentials\<lparr>body_of := [(''email'', JStr ''a@x.com''), (''password'', JStr ''wrong'')]\<rparr>"
      and u = "JObj [(''id'', JStr ''u1''), (''email'', JStr ''a@x.com''),
                     (''full_name'', JStr ''A''), (''password_hash'', JStr ''$2b$10$hash''),
                     (''plan_type'', JStr ''free'')]"
      and us = "[]" and bcrypt_compare = bcrypt0 and isMatch = False and lib = lib0 and env = env0
      and now = 100 and token = "''h.p.s''"]
  by (simp add: login_def pool_query_def liftE_def index0_def io_defs jwt_sign_def expiresIn_def
        js_get_def js_prop_def example_defs)

section \<open>Issuing and verifying a token\<close>

text \<open>
  C8. A token that \<open>jwt.sign\<close> issued at time \<open>t0\<close> for the payload
  \<open>{id, email}\<close>, with the secret and the time span that \<open>POST /login\<close> passes,
  and that is presented as \<open>Bearer\<close> token at a time before \<open>t0 + ttl\<close>, passes the
  middleware, and the \<open>req.user\<close> it attaches has the \<open>id\<close> and the \<open>email\<close> that
  were signed. The serialisation is assumed to be read back by the parser and to contain
  no blank.
\<close>
theorem sign_verify_roundtrip:
  assumes "jwt_sign lib t0 [(''id'', uid), (''email'', em)] (JWT_SECRET env) (expiresIn env) = Inr tok"
    and "timespan lib (expiresIn env) = Some ttl"
    and "t1 < t0 + ttl"
    and "\<forall>j. compact lib j = tok \<longrightarrow> parse_compact lib tok = Some j"
    and "tok \<noteq> []" and "CHR '' '' \<notin> set tok"
    and "authorization req = Some (''Bearer '' @ tok)"
  shows "\<exists>req' w'. authMiddleware lib env t1 req w = (Inr (Some req'), w') \<and>
           js_get (user req') ''id'' = uid \<and> js_get (user req') ''email'' = em"
proof -
  let ?p = "[(''id'', uid), (''email'', em), (''iat'', JNum (int t0)),
             (''exp'', JNum (int t0 + int ttl))]"
  obtain k where k: "JWT_SECRET env = Some k" "k \<noteq> []" and tok: "compact lib (Jwt k ?p) = tok"
    using assms(1,2) by (auto simp add: jwt_sign_def split: option.splits if_splits)
  have parse: "parse_compact lib tok = Some (Jwt k ?p)"
    using assms(4) tok by blast
  have ex: "js_get ?p ''exp'' = JNum (int t0 + int ttl)"
    by (simp add: js_get_def)
  have lt: "int t1 < int t0 + int ttl"
    using assms(3) by simp
  have v: "jwt_verify lib t1 tok (Some k) w =
             (Inr ?p, w\<lparr>trace := trace w @ [Verify tok, CheckSignature tok]\<rparr>)"
    by (rule jwt_verify_ok [OF parse assms(5) k(2) ex lt])
  have "authMiddleware lib env t1 req w =
          (Inr (Some (req\<lparr>user := ?p\<rparr>)), w\<lparr>trace := trace w @ [Verify tok, CheckSignature tok]\<rparr>)"
    using v k(1)
    by (simp add: authMiddleware_bearer [OF assms(7) assms(6)] try_catch_def andThen_def ret_def)
  then show ?thesis
    by (simp add: js_get_def)
qed

theorem sign_verify_roundtrip_witness:
  "jwt_sign lib0 100 [(''id'', JStr ''u1''), (''email'', JStr ''a@x.com'')] (JWT_SECRET env0) (expiresIn env0) = Inr ''h.p.s'' \<and>
   timespan lib0 (expiresIn env0) = Some 86400 \<and> (100::nat) < 100 + 86400 \<and>
   parse_compact lib0 ''h.p.s'' = Some token0 \<and>
   (\<exists>req' w'. authMiddleware lib0 env0 100 (bearer ''Bearer h.p.s'') pool1 = (Inr (Some req'), w') \<and>
      js_get (user req') ''id'' = JStr ''u1'' \<and> js_get (user req') ''email'' = JStr ''a@x.com'')"
proof -
  have h1: "jwt_sign lib0 100 [(''id'', JStr ''u1''), (''email'', JStr ''a@x.com'')]
              (JWT_SECRET env0) (expiresIn env0) = Inr ''h.p.s''"
    by (simp add: jwt_sign_def expiresIn_def example_defs)
  have h2: "timespan lib0 (expiresIn env0) = Some 86400"
    by (simp add: expiresIn_def example_defs)
  have h4: "\<forall>j. compact lib0 j = ''h.p.s'' \<longrightarrow> parse_compact lib0 ''h.p.s'' = Some j"
    by (simp add: example_defs)
  have h7: "authorization (bearer ''Bearer h.p.s'') = Some (''Bearer '' @ ''h.p.s'')"
    by (simp add: bearer_def)
  have "\<exists>req' w'. authMiddleware lib0 env0 100 (bearer ''Bearer h.p.s'') pool1 = (Inr (Some req'), w') \<and>
      js_get (user req') ''id'' = JStr ''u1'' \<and> js_get (user req') ''email'' = JStr ''a@x.com''"
    by (rule sign_verify_roundtrip [OF h1 h2 _ h4 _ _ h7]) simp_all
  moreover have "parse_compact lib0 ''h.p.s'' = Some token0"
    by (simp add: example_defs)
  ultimately show ?thesis
    using h1 h2 by simp
qed

section \<open>The list of users\<close>

text \<open>
  C2. For every request that passes the middleware, \<open>GET /users\<close> sends the one
  statement \<open>SELECT * FROM public.users ORDER BY created_at DESC\<close> through
  \<open>pool.query\<close>, with no binding statement before it, and answers with status 200 and
  all rows of the result in the order received. The run of the handler is the same for
  every principal.
\<close>
theorem get_users_returns_all_rows:
  assumes "authMiddleware lib env now req w = (Inr (Some req'), w1)"
    and "idle w1 = c # cs"
    and "db ''SELECT * FROM public.users ORDER BY created_at DESC'' [] (session w1 c) = Inr rows"
  shows "case guarded lib env now (get_users db) req w of (res, w') \<Rightarrow>
           res = Inr () \<and>
           new_events w1 w' =
             [Connect c, Query c ''SELECT * FROM public.users ORDER BY created_at DESC'' [],
              Release c, Send \<lparr>status = 200, body = Some (JArr rows)\<rparr>] \<and>
           (\<forall>req''. get_users db req'' w1 = get_users db req' w1)"
  using assms
  by (simp add: guarded_def get_users_def pool_query_def io_defs
           split: sum.splits prod.splits)

theorem get_users_returns_all_rows_witness:
  "(\<exists>req' w1.
      authMiddleware lib0 env0 100 (bearer ''Bearer h.p.s'') pool1 = (Inr (Some req'), w1) \<and>
      idle w1 = [0] \<and>
      db_users ''SELECT * FROM public.users ORDER BY created_at DESC'' [] (session w1 0) =
        Inr [JObj [(''id'', JStr ''u1''), (''email'', JStr ''a@x.com''),
                   (''full_name'', JStr ''A''), (''password_hash'', JStr ''$2b$10$hash''),
                   (''plan_type'', JStr ''free'')]] \<and>
      (case guarded lib0 env0 100 (get_users db_users) (bearer ''Bearer h.p.s'') pool1 of (res, w') \<Rightarrow>
         res = Inr () \<and>
         new_events w1 w' =
           [Connect 0, Query 0 ''SELECT * FROM public.users ORDER BY created_at DESC'' [],
            Release 0,
            Send \<lparr>status = 200,
                  body = Some (JArr [JObj [(''id'', JStr ''u1''), (''email'', JStr ''a@x.com''),
                                           (''full_name'', JStr ''A''),
                                           (''password_hash'', JStr ''$2b$10$hash''),
                                           (''plan_type'', JStr ''free'')]])\<rparr>]))"
proof -
  let ?w1 = "pool1\<lparr>trace := trace pool1 @ [Verify ''h.p.s'', CheckSignature ''h.p.s'']\<rparr>"
  let ?req' = "(bearer ''Bearer h.p.s'')\<lparr>user := jwt_payload token0\<rparr>"
  have h1: "authMiddleware lib0 env0 100 (bearer ''Bearer h.p.s'') pool1 = (Inr (Some ?req'), ?w1)"
    by (simp add: authMiddleware_def jwt_verify_def io_defs example_defs js_get_def)
  have h2: "idle ?w1 = [0]"
    by (simp add: pool1_def)
  have h3: "db_users ''SELECT * FROM public.users ORDER BY created_at DESC'' [] (session ?w1 0) =
        Inr [JObj [(''id'', JStr ''u1''), (''email'', JStr ''a@x.com''),
                   (''full_name'', JStr ''A''), (''password_hash'', JStr ''$2b$10$hash''),
                   (''plan_type'', JStr ''free'')]]"
    by (simp add: db_users_def)
  show ?thesis
    using h1 h2 h3
      get_users_returns_all_rows [where lib = lib0 and env = env0 and now = 100
        and req = "bearer ''Bearer h.p.s''" and w = pool1 and req' = ?req' and ?w1.0 = ?w1
        and c = 0 and cs = "[]" and db = db_users
        and rows = "[JObj [(''id'', JStr ''u1''), (''email'', JStr ''a@x.com''),
                   (''full_name'', JStr ''A''), (''password_hash'', JStr ''$2b$10$hash''),
                   (''plan_type'', JStr ''free'')]]"]
    by (intro exI [of _ ?req'] exI [of _ ?w1]) (simp add: case_prod_unfold)
qed

section \<open>Failures of the storage tier\<close>

text \<open>
  C9. The property asks that every failed query ends in a generic server-error response
  without the text of the database error. \<open>POST /family\<close> answers a failed insert with
  status 400 and the message of the database error as body.
\<close>
theorem post_family_leaks_error_text:
  "(case post_family db_unique alice pool1 of (res, w') \<Rightarrow>
      res = Inr () \<and>
      Failed 0 (JsError ''duplicate key value violates unique constraint family_members_email_key'' (Some ''23505''))
        \<in> set (new_events pool1 w') \<and>
      sent (new_events pool1 w') =
        [\<lparr>status = 400,
          body = Some (JObj [(''error'',
                   JStr ''duplicate key value violates unique constraint family_members_email_key'')])\<rparr>])"
  by (simp add: post_family_def io_defs example_defs js_get_def index0_def)

text \<open>
  C9, as the code has it: when a statement fails in \<open>GET /profile\<close>, \<open>PUT /profile\<close>,
  \<open>GET /reminders\<close>, \<open>GET /users\<close> or \<open>POST /login\<close>, the handler sends exactly one
  response, with status 500 and a fixed message that does not depend on the error; in
  \<open>POST /family\<close> it sends status 400 with the message of the error.
\<close>

theorem storage_failure_response:
  assumes "idle w = c # cs"
    and "run = handler parseInt GET_profile db req \<and>
           rsp = \<lparr>status = 500, body = Some (JObj [(''error'', JStr ''Failed to fetch profile'')])\<rparr> \<or>
         run = handler parseInt PUT_profile db req \<and>
           rsp = \<lparr>status = 500, body = Some (JObj [(''error'', JStr ''Failed to update profile'')])\<rparr> \<or>
         run = handler parseInt GET_reminders db req \<and>
           rsp = \<lparr>status = 500, body = Some (JObj [(''error'', JStr ''Internal server error'')])\<rparr> \<or>
         run = get_users db req \<and>
           rsp = \<lparr>status = 500, body = Some (JObj [(''error'', JStr ''Internal server error'')])\<rparr> \<or>
         run = login lib bcrypt_compare env now db req \<and>
           rsp = \<lparr>status = 500, body = Some (JObj [(''error'', JStr ''Internal server error'')])\<rparr> \<or>
         run = handler parseInt POST_family db req \<and>
           rsp = \<lparr>status = 400, body = Some (JObj [(''error'', JStr (message e))])\<rparr>"
  shows "case run w of (res, w') \<Rightarrow>
           (Failed c e \<in> set (new_events w w') \<longrightarrow>
              res = Inr () \<and> sent (new_events w w') = [rsp])"
  using assms
  by (elim disjE conjE)
     (auto simp add: handler_defs get_users_def login_def pool_query_def liftE_def io_defs
           split: sum.splits prod.splits if_splits)

theorem storage_failure_response_witness:
  "idle pool1 = [0] \<and>
   (case handler (\<lambda>_. None) GET_profile db_down alice pool1 of (res, w') \<Rightarrow>
      Failed 0 (JsError ''Connection terminated unexpectedly'' None) \<in> set (new_events pool1 w') \<and>
      res = Inr () \<and>
      sent (new_events pool1 w') =
        [\<lparr>status = 500, body = Some (JObj [(''error'', JStr ''Failed to fetch profile'')])\<rparr>]) \<and>
   (case login lib0 bcrypt0 env0 100 db_down credentials pool1 of (res, w') \<Rightarrow>
      Failed 0 (JsError ''Connection terminated unexpectedly'' None) \<in> set (new_events pool1 w') \<and>
      res = Inr () \<and>
      sent (new_events pool1 w') =
        [\<lparr>status = 500, body = Some (JObj [(''error'', JStr ''Internal server error'')])\<rparr>]) \<and>
   (case handler (\<lambda>_. None) POST_family db_down alice pool1 of (res, w') \<Rightarrow>
      Failed 0 (JsError ''Connection terminated unexpectedly'' None) \<in> set (new_events pool1 w') \<and>
      res = Inr () \<and>
      sent (new_events pool1 w') =
        [\<lparr>status = 400, body = Some (JObj [(''error'', JStr ''Connection terminated unexpectedly'')])\<rparr>])"
  using
    storage_failure_response [where w = pool1 and c = 0 and cs = "[]"
      and run = "handler (\<lambda>_. None) GET_profile db_down alice" and parseInt = "\<lambda>_. None"
      and db = db_down and req = alice
      and rsp = "\<lparr>status = 500, body = Some (JObj [(''error'', JStr ''Failed to fetch profile'')])\<rparr>"
      and e = "JsError ''Connection terminated unexpectedly'' None"]
    storage_failure_response [where w = pool1 and c = 0 and cs = "[]"
      and run = "login lib0 bcrypt0 env0 100 db_down credentials" and lib = lib0
      and bcrypt_compare = bcrypt0 and env = env0 and now = 100
      and db = db_down and req = credentials
      and rsp = "\<lparr>status = 500, body = Some (JObj [(''error'', JStr ''Internal server error'')])\<rparr>"
      and e = "JsError ''Connection terminated unexpectedly'' None"]
    storage_failure_response [where w = pool1 and c = 0 and cs = "[]"
      and run = "handler (\<lambda>_. None) POST_family db_down alice" and parseInt = "\<lambda>_. None"
      and db = db_down and req = alice
      and rsp = "\<lparr>status = 400, body = Some (JObj [(''error'', JStr ''Connection terminated unexpectedly'')])\<rparr>"
      and e = "JsError ''Connection terminated unexpectedly'' None"]
  by (simp add: get_profile_def post_family_def login_def pool_query_def io_defs example_defs js_get_def)

text \<open>
  The other tenant-scoped handlers have no \<open>catch\<close> block: they send nothing and reject
  with the error of the failed statement.
\<close>

lemma uncaught_failure_rejects:
  assumes "idle w = c # cs"
    and "r \<notin> {GET_profile, PUT_profile, GET_reminders, POST_family}"
  shows "case handler parseInt r db req w of (res, w') \<Rightarrow>
           (Failed c e \<in> set (new_events w w') \<longrightarrow>
              res = Inl e \<and> sent (new_events w w') = [])"
  using assms
  by (cases r) (auto simp add: handler_defs io_defs split: sum.splits prod.splits if_splits)

end
